theory Spec2Isabelle
  imports Main
begin

section \<open>Data model\<close>

text \<open>
  The client keeps its data in plain JavaScript objects. Each interface of the source is a
  record here. Field names follow the source; a suffix is added where two interfaces share
  a field name or where the name is a constant of HOL (\<open>id\<close>).
\<close>

datatype role = User | Model

text \<open>
  \<open>ChatMessage\<close> is one entry of a fetched history: \<open>{ role, parts: string[] }\<close>.
\<close>

record ChatMessage =
  role_h :: role
  parts :: "string list"

text \<open>
  \<open>ChatSession\<close> is \<open>{ id, title, created_at }\<close>. The creation time is only carried
  along, never computed with.
\<close>

record ChatSession =
  id_cs :: string
  title :: string
  created_at :: int

text \<open>
  The content of a displayed message is a string, except that \<open>h.parts[0]\<close> on an empty
  \<open>parts\<close> array reads \<open>undefined\<close>.
\<close>

datatype content = Text string | Undefined

record Message =
  role :: role
  content :: content

text \<open>
  The payload of a send-message response: \<open>{ response, chat_id, title? }\<close>.
\<close>

record SendResponse =
  response :: string
  chat_id :: string
  title_r :: "string option"

text \<open>
  A rejected call carries \<open>error.response?.status\<close>: the status of the response when there
  is one, nothing for a transport failure.
\<close>

datatype error = Error "nat option"

fun status :: "error \<Rightarrow> nat option" where
  "status (Error st) = st"

section \<open>JavaScript truthiness and trimming\<close>

text \<open>
  \<open>!x\<close> on a value of type \<open>string | null\<close> holds for \<open>null\<close> and for the empty string.
\<close>

definition truthy :: "string option \<Rightarrow> bool" where
  "truthy x = (case x of None \<Rightarrow> False | Some v \<Rightarrow> v \<noteq> [])"

text \<open>
  \<open>String.prototype.trim\<close> strips white space and line terminators from both ends. The
  code units below 256 that it strips are tab, line feed, vertical tab, form feed, carriage
  return, space and no-break space.
\<close>

definition is_white_space :: "char \<Rightarrow> bool" where
  "is_white_space c = (of_char c \<in> {9, 10, 11, 12, 13, 32, 160 :: nat})"

definition trim :: "string \<Rightarrow> string" where
  "trim str = rev (dropWhile is_white_space (rev (dropWhile is_white_space str)))"

section \<open>Request gateway: the response interceptor\<close>

text \<open>
  The interceptor reads and writes the browser: the persistent key-value store, the path of
  the current location, and the location itself by assignment to \<open>window.location.href\<close>.
  \<open>navigations\<close> lists the assignments made, oldest first.
\<close>

record browser =
  localStorage :: "string \<rightharpoonup> string"
  pathname :: string
  navigations :: "string list"

definition removeItem :: "string \<Rightarrow> browser \<Rightarrow> browser" where
  "removeItem key b = b\<lparr>localStorage := (localStorage b)(key := None)\<rparr>"

definition set_href :: "string \<Rightarrow> browser \<Rightarrow> browser" where
  "set_href url b = b\<lparr>pathname := url, navigations := navigations b @ [url]\<rparr>"

text \<open>
  The success handler returns the response unchanged. The failure handler always rejects
  with the error it was given; before that, on status 401 and away from the login and
  register pages, it removes the token and assigns the login page to the location.
\<close>

definition response_fulfilled :: "'r \<Rightarrow> error + 'r" where
  "response_fulfilled resp = Inr resp"

definition response_rejected :: "browser \<Rightarrow> error \<Rightarrow> browser \<times> (error + 'r)" where
  "response_rejected b err =
     (let b1 =
        (if status err = Some 401 then
           (let currentPath = pathname b in
            if currentPath \<noteq> ''/login'' \<and> currentPath \<noteq> ''/register''
            then set_href ''/login'' (removeItem ''token'' b)
            else b)
         else b)
      in (b1, Inl err))"

section \<open>Remote service and API functions\<close>

text \<open>
  The remote service is a black box. For one user action it is given by what each endpoint
  answers: a payload, or an error.
\<close>

record backend =
  post_chats :: "string \<Rightarrow> error + ChatSession"
  post_chat :: "string \<Rightarrow> string \<Rightarrow> error + SendResponse"
  get_history :: "string \<Rightarrow> error + ChatMessage list"
  delete_chats :: "string \<Rightarrow> error + unit"

datatype request =
    CreateChat string
  | SendMessage string string
  | GetHistory string
  | DeleteChat string

section \<open>The chat component\<close>

text \<open>
  The state of \<open>ChatInterface\<close>: the React state variables the session logic uses, and
  \<open>requests\<close>, the remote calls issued so far, oldest first. No code reads \<open>requests\<close>;
  it is there so that theorems can speak about the calls an action makes.

  \<open>handleSend\<close>, \<open>confirmDeleteChat\<close> and \<open>selectChat\<close> below are one action each, run
  from its call to its completion with no other action in between. Actions that overlap are
  the subject of the section on fetches in flight.
\<close>

record ChatInterface =
  input :: string
  messages :: "Message list"
  chats :: "ChatSession list"
  currentChatId :: "string option"
  loading :: bool
  deleteId :: "string option"
  requests :: "request list"

text \<open>
  Each API function issues its call and returns what the service answers. The call of
  \<open>getHistory\<close> is written into \<open>selectChat\<close> below, which is split at its \<open>await\<close>.
\<close>

definition createChat ::
  "backend \<Rightarrow> string \<Rightarrow> ChatInterface \<Rightarrow> (error + ChatSession) \<times> ChatInterface" where
  "createChat be ttl s = (post_chats be ttl, s\<lparr>requests := requests s @ [CreateChat ttl]\<rparr>)"

definition sendMessage ::
  "backend \<Rightarrow> string \<Rightarrow> string \<Rightarrow> ChatInterface \<Rightarrow> (error + SendResponse) \<times> ChatInterface" where
  "sendMessage be chatId message s =
     (post_chat be chatId message, s\<lparr>requests := requests s @ [SendMessage chatId message]\<rparr>)"

definition deleteChat ::
  "backend \<Rightarrow> string \<Rightarrow> ChatInterface \<Rightarrow> (error + unit) \<times> ChatInterface" where
  "deleteChat be chatId s =
     (delete_chats be chatId, s\<lparr>requests := requests s @ [DeleteChat chatId]\<rparr>)"

subsection \<open>selectChat and handleNewChat\<close>

text \<open>
  \<open>mapped\<close> is the arrow function given to \<open>history.map\<close>.
\<close>

definition mapped :: "ChatMessage \<Rightarrow> Message" where
  "mapped h =
     \<lparr>role = role_h h,
      content = (case parts h of [] \<Rightarrow> Undefined | p # _ \<Rightarrow> Text p)\<rparr>"

text \<open>
  \<open>selectChat\<close> runs in two parts around its \<open>await\<close>. \<open>selectChat_begin\<close> is the part
  before it, for an id that passed the guard: the id becomes current, the view is cleared
  and the fetch is issued. \<open>selectChat_resume\<close> is the part after it: a fetched history
  replaces the view, a failure is logged and changes nothing.
\<close>

definition selectChat_begin :: "string \<Rightarrow> ChatInterface \<Rightarrow> ChatInterface" where
  "selectChat_begin i s =
     (let s1 = s\<lparr>currentChatId := Some i\<rparr>;
          s2 = s1\<lparr>messages := []\<rparr>
      in s2\<lparr>requests := requests s2 @ [GetHistory i]\<rparr>)"

definition selectChat_resume :: "error + ChatMessage list \<Rightarrow> ChatInterface \<Rightarrow> ChatInterface" where
  "selectChat_resume res s =
     (case res of
        Inr history \<Rightarrow> s\<lparr>messages := map mapped history\<rparr>
      | Inl e \<Rightarrow> s)"

text \<open>
  \<open>selectChat\<close> run from call to completion with nothing in between: the guard, the part
  before the \<open>await\<close>, then the part after it with what the service answers for that id.
\<close>

definition selectChat :: "backend \<Rightarrow> string option \<Rightarrow> ChatInterface \<Rightarrow> ChatInterface" where
  "selectChat be i s =
     (if \<not> truthy i then s
      else selectChat_resume (get_history be (the i)) (selectChat_begin (the i) s))"

definition handleNewChat :: "ChatInterface \<Rightarrow> ChatInterface" where
  "handleNewChat s = (s\<lparr>currentChatId := None\<rparr>)\<lparr>messages := []\<rparr>"

subsection \<open>confirmDeleteChat\<close>

text \<open>
  \<open>chats\<close> and \<open>currentChatId\<close> in the body are the values the closure captured when the
  action started, so they are read from the starting state \<open>s\<close>.
\<close>

definition confirmDeleteChat :: "backend \<Rightarrow> ChatInterface \<Rightarrow> ChatInterface" where
  "confirmDeleteChat be s =
     (if \<not> truthy (deleteId s) then s
      else
        (let i = the (deleteId s);
             s1 = s\<lparr>deleteId := None\<rparr>
         in case deleteChat be i s1 of
              (Inl e, s2) \<Rightarrow> s2
            | (Inr u, s2) \<Rightarrow>
                (let updated = filter (\<lambda>c. id_cs c \<noteq> i) (chats s);
                     s3 = s2\<lparr>chats := updated\<rparr>
                 in if currentChatId s = Some i then
                      (if length updated > 0
                       then selectChat be (Some (id_cs (updated ! 0))) s3
                       else handleNewChat s3)
                    else s3)))"

subsection \<open>handleSend\<close>

definition error_message :: Message where
  "error_message = \<lparr>role = Model, content = Text ''Error: Could not reach the AI companion.''\<rparr>"

text \<open>
  The \<open>catch\<close> block appends the synthetic message; the \<open>finally\<close> block clears the
  loading flag.
\<close>

definition handleSend_catch :: "ChatInterface \<Rightarrow> ChatInterface" where
  "handleSend_catch s = s\<lparr>messages := messages s @ [error_message]\<rparr>"

definition handleSend :: "backend \<Rightarrow> ChatInterface \<Rightarrow> ChatInterface" where
  "handleSend be s =
     (if trim (input s) = [] then s
      else
        (let userMsg = input s;
             s1 = s\<lparr>input := []\<rparr>;
             s2 = s1\<lparr>messages := messages s1 @ [\<lparr>role = User, content = Text userMsg\<rparr>]\<rparr>;
             s3 = s2\<lparr>loading := True\<rparr>;
             s4 =
               (if \<not> truthy (currentChatId s) then
                  (case createChat be ''New Chat'' s3 of
                     (Inl e, t1) \<Rightarrow> handleSend_catch t1
                   | (Inr newChat, t1) \<Rightarrow>
                       (let t2 = t1\<lparr>currentChatId := Some (id_cs newChat)\<rparr>
                        in case sendMessage be (id_cs newChat) userMsg t2 of
                             (Inl e, t3) \<Rightarrow> handleSend_catch t3
                           | (Inr data, t3) \<Rightarrow>
                               (let t4 = t3\<lparr>messages := messages t3 @
                                            [\<lparr>role = Model, content = Text (response data)\<rparr>]\<rparr>;
                                    newChat1 =
                                      (if truthy (title_r data)
                                       then newChat\<lparr>title := the (title_r data)\<rparr>
                                       else newChat)
                                in t4\<lparr>chats := newChat1 # chats s\<rparr>)))
                else
                  (case sendMessage be (the (currentChatId s)) userMsg s3 of
                     (Inl e, t1) \<Rightarrow> handleSend_catch t1
                   | (Inr data, t1) \<Rightarrow>
                       t1\<lparr>messages := messages t1 @
                            [\<lparr>role = Model, content = Text (response data)\<rparr>]\<rparr>))
         in s4\<lparr>loading := False\<rparr>))"

section \<open>Selections whose fetches are in flight\<close>

text \<open>
  The component runs on one thread: an action runs up to its \<open>await\<close>, and its
  continuation runs later, when the fetch completes. \<open>pending\<close> holds the ids of the
  fetches in flight, in the order they were issued. \<open>Select\<close> is a call of \<open>selectChat\<close>
  up to the \<open>await\<close>; \<open>Complete k\<close> is the completion of the \<open>k\<close>-th fetch in flight,
  with what the service answers for its id. Nothing aborts a fetch.
\<close>

record event_loop =
  ui :: ChatInterface
  pending :: "string list"

datatype event = Select "string option" | Complete nat

fun step :: "backend \<Rightarrow> event_loop \<Rightarrow> event \<Rightarrow> event_loop" where
  "step be a (Select i) =
     (if \<not> truthy i then a
      else \<lparr>ui = selectChat_begin (the i) (ui a), pending = pending a @ [the i]\<rparr>)"
| "step be a (Complete k) =
     (if k < length (pending a)
      then \<lparr>ui = selectChat_resume (get_history be (pending a ! k)) (ui a),
            pending = take k (pending a) @ drop (Suc k) (pending a)\<rparr>
      else a)"

definition run :: "backend \<Rightarrow> event_loop \<Rightarrow> event list \<Rightarrow> event_loop" where
  "run be a evs = foldl (step be) a evs"

text \<open>
  Two notions for statements about whole runs. \<open>completed p ks\<close> lists, in the order of
  completion, the ids of the fetches that the completions \<open>ks\<close> deliver when the fetches
  \<open>p\<close> are in flight: it follows the \<open>Complete\<close> case of \<open>step\<close>. \<open>last_success be js\<close>
  is the history answered to the last id of \<open>js\<close> whose fetch succeeds, if there is one.
\<close>

fun completed :: "string list \<Rightarrow> nat list \<Rightarrow> string list" where
  "completed p [] = []"
| "completed p (k # ks) =
     (if k < length p
      then p ! k # completed (take k p @ drop (Suc k) p) ks
      else completed p ks)"

fun last_success :: "backend \<Rightarrow> string list \<Rightarrow> ChatMessage list option" where
  "last_success be [] = None"
| "last_success be (j # js) =
     (case last_success be js of
        Some history \<Rightarrow> Some history
      | None \<Rightarrow> (case get_history be j of Inr history \<Rightarrow> Some history | Inl e \<Rightarrow> None))"

section \<open>Concrete services and states\<close>

text \<open>
  A service that answers every call: a new session gets the id \<open>c1\<close>, a sent message gets
  a reply and a title, the history of a session is one message naming the session.
\<close>

definition be_up :: backend where
  "be_up =
     \<lparr>post_chats = (\<lambda>ttl. Inr \<lparr>id_cs = ''c1'', title = ttl, created_at = 0\<rparr>),
      post_chat = (\<lambda>chatId message.
        Inr \<lparr>response = ''Hello!'', chat_id = chatId, title_r = Some ''Greetings''\<rparr>),
      get_history = (\<lambda>chatId. Inr [\<lparr>role_h = User, parts = [''history of '' @ chatId]\<rparr>]),
      delete_chats = (\<lambda>chatId. Inr ())\<rparr>"

text \<open>A service that cannot be reached.\<close>

definition be_down :: backend where
  "be_down =
     \<lparr>post_chats = (\<lambda>ttl. Inl (Error None)),
      post_chat = (\<lambda>chatId message. Inl (Error None)),
      get_history = (\<lambda>chatId. Inl (Error None)),
      delete_chats = (\<lambda>chatId. Inl (Error None))\<rparr>"

text \<open>A service that creates sessions and then fails on the message.\<close>

definition be_send_down :: backend where
  "be_send_down = be_up\<lparr>post_chat := (\<lambda>chatId message. Inl (Error (Some 500)))\<rparr>"

definition session :: "string \<Rightarrow> string \<Rightarrow> ChatSession" where
  "session i ttl = \<lparr>id_cs = i, title = ttl, created_at = 0\<rparr>"

text \<open>No session is active and the user has typed \<open>Hello\<close>.\<close>

definition s_new :: ChatInterface where
  "s_new =
     \<lparr>input = ''Hello'', messages = [], chats = [], currentChatId = None,
      loading = False, deleteId = None, requests = []\<rparr>"

text \<open>
  Session \<open>c1\<close> is active and shows one earlier message; \<open>c1\<close> and \<open>c2\<close> are listed.
\<close>

definition s_active :: ChatInterface where
  "s_active =
     \<lparr>input = ''Hello'', messages = [\<lparr>role = User, content = Text ''earlier''\<rparr>],
      chats = [session ''c1'' ''New Chat'', session ''c2'' ''Algebra''],
      currentChatId = Some ''c1'', loading = False, deleteId = None, requests = []\<rparr>"

definition browser_chat :: browser where
  "browser_chat =
     \<lparr>localStorage = [''token'' \<mapsto> ''abc''], pathname = ''/'', navigations = []\<rparr>"

definition browser_login :: browser where
  "browser_login = browser_chat\<lparr>pathname := ''/login''\<rparr>"

section \<open>Helper facts\<close>

lemmas send_defs = handleSend_def Let_def createChat_def sendMessage_def handleSend_catch_def

lemmas select_defs = selectChat_def selectChat_begin_def selectChat_resume_def Let_def

lemmas delete_defs = confirmDeleteChat_def deleteChat_def handleNewChat_def

lemma trim_Hello: "trim ''Hello'' \<noteq> []"
  by (simp add: trim_def is_white_space_def)

lemma trim_spaces: "trim ''  '' = []"
  by (simp add: trim_def is_white_space_def)

lemma run_snoc: "run be a (evs @ [ev]) = step be (run be a evs) ev"
  by (simp add: run_def)

lemma run_Nil: "run be a [] = a"
  by (simp add: run_def)

lemma run_Cons: "run be a (ev # evs) = run be (step be a ev) evs"
  by (simp add: run_def)

section \<open>Sending with no active session\<close>

text \<open>
  C1, as the code has it. A send with no active session (\<open>currentChatId\<close> null or empty)
  and an input that is not blank issues exactly one \<open>createChat\<close> call, for the title
  \<open>New Chat\<close>. When that call returns a session, exactly one \<open>sendMessage\<close> call follows,
  with the returned id and the input as typed, and the returned id becomes
  \<open>currentChatId\<close>. When the create call fails, nothing follows it and \<open>currentChatId\<close>
  stays as it was.
\<close>

theorem handleSend_provisioning_calls:
  assumes "\<not> truthy (currentChatId s)" and "trim (input s) \<noteq> []"
  shows "requests (handleSend be s) =
           requests s @ CreateChat ''New Chat'' #
             (case post_chats be ''New Chat'' of
                Inl e \<Rightarrow> []
              | Inr newChat \<Rightarrow> [SendMessage (id_cs newChat) (input s)])
         \<and> currentChatId (handleSend be s) =
             (case post_chats be ''New Chat'' of
                Inl e \<Rightarrow> currentChatId s
              | Inr newChat \<Rightarrow> Some (id_cs newChat))"
  using assms
  by (simp add: send_defs split: sum.splits)

text \<open>
  The first send of \<open>Hello\<close> against a service that answers: one create call, one send call
  for the new id \<open>c1\<close>, and \<open>c1\<close> is active.
\<close>

theorem handleSend_provisioning_calls_witness:
  "\<not> truthy (currentChatId s_new) \<and> trim (input s_new) \<noteq> [] \<and>
   post_chats be_up ''New Chat'' = Inr (session ''c1'' ''New Chat'') \<and>
   requests (handleSend be_up s_new) = [CreateChat ''New Chat'', SendMessage ''c1'' ''Hello''] \<and>
   currentChatId (handleSend be_up s_new) = Some ''c1''"
proof -
  have h1: "\<not> truthy (currentChatId s_new)"
    by (simp add: s_new_def truthy_def)
  have h2: "trim (input s_new) \<noteq> []"
    by (simp add: s_new_def trim_Hello)
  have h3: "post_chats be_up ''New Chat'' = Inr (session ''c1'' ''New Chat'')"
    by (simp add: be_up_def session_def)
  from handleSend_provisioning_calls [OF h1 h2, where be = be_up] h3
  have "requests (handleSend be_up s_new) =
          requests s_new @ [CreateChat ''New Chat'', SendMessage ''c1'' (input s_new)] \<and>
        currentChatId (handleSend be_up s_new) = Some ''c1''"
    by (simp add: session_def)
  with h1 h2 h3 show ?thesis by (simp add: s_new_def)
qed

text \<open>
  The same send against a service that cannot be reached: the create call is the only call,
  no send call is issued and no session becomes active.
\<close>

theorem handleSend_create_fails_counterexample:
  "currentChatId s_new = None \<and> trim (input s_new) \<noteq> [] \<and>
   post_chats be_down ''New Chat'' = Inl (Error None) \<and>
   requests (handleSend be_down s_new) = [CreateChat ''New Chat''] \<and>
   currentChatId (handleSend be_down s_new) = None"
  by (simp add: send_defs s_new_def be_down_def truthy_def trim_Hello)

section \<open>Selections whose fetches complete in any order\<close>

text \<open>
  What a burst of selections leaves behind: every id that passes the guard has a fetch in
  flight, the last of them is current and the view is empty.
\<close>

lemma run_append: "run be a (xs @ ys) = run be (run be a xs) ys"
  by (simp add: run_def)

lemma pending_selects:
  "\<forall>i\<in>set ids. i \<noteq> [] \<Longrightarrow>
   pending (run be a (map (Select \<circ> Some) ids)) = pending a @ ids"
  by (induction ids rule: rev_induct) (simp_all add: run_Nil run_snoc truthy_def)

lemma ui_selects:
  assumes "ids \<noteq> []" and "\<forall>i\<in>set ids. i \<noteq> []"
  shows "currentChatId (ui (run be a (map (Select \<circ> Some) ids))) = Some (last ids)
       \<and> messages (ui (run be a (map (Select \<circ> Some) ids))) = []"
proof (cases ids rule: rev_cases)
  case Nil
  with assms show ?thesis by simp
next
  case (snoc xs x)
  with assms have "x \<noteq> []" by simp
  with snoc show ?thesis
    by (simp add: run_snoc truthy_def selectChat_begin_def Let_def)
qed

text \<open>
  What completions do: the current id is never touched, and the view is the history of the
  last fetch that completed with success, or the earlier view when none did.
\<close>

lemma currentChatId_completions:
  "currentChatId (ui (run be b (map Complete ks))) = currentChatId (ui b)"
  by (induction ks arbitrary: b)
     (simp_all add: run_Nil run_Cons selectChat_resume_def split: sum.splits)

lemma messages_completions:
  "messages (ui (run be b (map Complete ks))) =
     (case last_success be (completed (pending b) ks) of
        None \<Rightarrow> messages (ui b)
      | Some history \<Rightarrow> map mapped history)"
proof (induction ks arbitrary: b)
  case Nil
  show ?case by (simp add: run_Nil)
next
  case (Cons k ks)
  show ?case
  proof (cases "k < length (pending b)")
    case True
    then show ?thesis
      by (simp add: run_Cons Cons.IH selectChat_resume_def split: sum.splits option.splits)
  next
    case False
    then show ?thesis
      by (simp add: run_Cons Cons.IH)
  qed
qed

text \<open>
  \<open>last_success\<close> read off a completion order: the fetch of \<open>j\<close> succeeds and every
  fetch that completes after it fails.
\<close>

lemma last_success_append:
  "last_success be (js1 @ js2) =
     (case last_success be js2 of Some h \<Rightarrow> Some h | None \<Rightarrow> last_success be js1)"
  by (induction js1) (simp_all split: option.splits sum.splits)

lemma last_success_failures:
  "\<forall>j\<in>set js. \<exists>e. get_history be j = Inl e \<Longrightarrow> last_success be js = None"
  by (induction js) auto

lemma last_success_decomposed:
  assumes "get_history be j = Inr history"
    and "\<forall>j'\<in>set js2. \<exists>e. get_history be j' = Inl e"
  shows "last_success be (js1 @ j # js2) = Some history"
  using assms by (simp add: last_success_append last_success_failures)

text \<open>
  C2, as the code has it. Take any run of the component, then a rapid sequence of
  selections of non-empty ids, then completions of fetches in flight in any order. At the
  end the last-selected id is the current one, and the view is the history delivered by the
  last fetch to complete with success, whichever session that fetch was issued for; the view
  is empty when no fetch completed with success. The continuation of \<open>selectChat\<close>
  compares no id, so a response for an earlier selection is displayed, not discarded,
  whenever it is the last to complete with success.
\<close>

theorem rapid_selections_final_view:
  assumes "ids \<noteq> []" and "\<forall>i\<in>set ids. i \<noteq> []"
  shows "currentChatId (ui (run be a (evs @ map (Select \<circ> Some) ids @ map Complete ks)))
           = Some (last ids)
       \<and> messages (ui (run be a (evs @ map (Select \<circ> Some) ids @ map Complete ks)))
           = (case last_success be (completed (pending (run be a evs) @ ids) ks) of
                None \<Rightarrow> []
              | Some history \<Rightarrow> map mapped history)"
proof -
  let ?b = "run be (run be a evs) (map (Select \<circ> Some) ids)"
  from assms have sel: "currentChatId (ui ?b) = Some (last ids)" "messages (ui ?b) = []"
    using ui_selects [of ids be "run be a evs"] by simp_all
  from assms have pen: "pending ?b = pending (run be a evs) @ ids"
    by (simp add: pending_selects)
  show ?thesis
    by (simp add: run_append currentChatId_completions messages_completions sel pen
        split: option.splits)
qed

text \<open>
  Sessions \<open>a\<close>, \<open>b\<close> and \<open>c\<close> are selected in turn while the view shows an earlier
  message; the fetch of \<open>c\<close> completes first, then that of \<open>a\<close>, then that of \<open>b\<close>.
  At the end \<open>c\<close> is current and the view is the history of \<open>b\<close>.
\<close>

theorem rapid_selections_final_view_witness:
  "[''a'', ''b'', ''c''] \<noteq> [] \<and> ''a'' \<noteq> [] \<and> ''b'' \<noteq> [] \<and> ''c'' \<noteq> [] \<and>
   completed (pending (run be_up \<lparr>ui = s_active, pending = []\<rparr> []) @ [''a'', ''b'', ''c''])
     [2, 0, 0] = [''c'', ''a'', ''b''] \<and>
   currentChatId (ui (run be_up \<lparr>ui = s_active, pending = []\<rparr>
       ([] @ map (Select \<circ> Some) [''a'', ''b'', ''c''] @ map Complete [2, 0, 0]))) = Some ''c'' \<and>
   messages (ui (run be_up \<lparr>ui = s_active, pending = []\<rparr>
       ([] @ map (Select \<circ> Some) [''a'', ''b'', ''c''] @ map Complete [2, 0, 0])))
     = [\<lparr>role = User, content = Text ''history of b''\<rparr>]"
proof -
  let ?a = "\<lparr>ui = s_active, pending = []\<rparr>"
  have h1: "[''a'', ''b'', ''c''] \<noteq> []" by simp
  have h2: "\<forall>i\<in>set [''a'', ''b'', ''c'']. i \<noteq> []" by simp
  have c: "completed (pending (run be_up ?a []) @ [''a'', ''b'', ''c'']) [2, 0, 0]
             = [''c'', ''a'', ''b'']"
    by (simp add: run_Nil)
  have l: "last_success be_up [''c'', ''a'', ''b'']
             = Some [\<lparr>role_h = User, parts = [''history of b'']\<rparr>]"
    by (simp add: be_up_def)
  note t = rapid_selections_final_view [OF h1 h2, of be_up ?a "[]" "[2, 0, 0]"]
  from t [unfolded c l] c show ?thesis by (simp add: mapped_def)
qed

text \<open>
  The view when the completion order is known: the fetch of \<open>j\<close> succeeded and every
  fetch that completed after it failed. Nothing asks that \<open>j\<close> be the last selection.
\<close>

lemma final_view_last_success:
  assumes "ids \<noteq> []" and "\<forall>i\<in>set ids. i \<noteq> []"
    and "completed (pending (run be a evs) @ ids) ks = js1 @ j # js2"
    and "get_history be j = Inr history"
    and "\<forall>j'\<in>set js2. \<exists>e. get_history be j' = Inl e"
  shows "messages (ui (run be a (evs @ map (Select \<circ> Some) ids @ map Complete ks)))
           = map mapped history"
proof -
  from assms(3-5) have "last_success be (completed (pending (run be a evs) @ ids) ks)
                          = Some history"
    by (simp add: last_success_decomposed)
  moreover from assms(1,2)
  have "messages (ui (run be a (evs @ map (Select \<circ> Some) ids @ map Complete ks)))
           = (case last_success be (completed (pending (run be a evs) @ ids) ks) of
                None \<Rightarrow> []
              | Some history \<Rightarrow> map mapped history)"
    by (simp add: run_append messages_completions pending_selects ui_selects
        split: option.splits)
  ultimately show ?thesis by simp
qed

text \<open>
  Sessions \<open>a\<close> and \<open>b\<close> are selected in turn; the fetch of \<open>b\<close> completes first and
  the fetch of \<open>a\<close> after it: \<open>b\<close> is current and the view shows the history of \<open>a\<close>.
\<close>

theorem stale_history_counterexample:
  "currentChatId
     (ui (run be_up \<lparr>ui = s_new, pending = []\<rparr>
            [Select (Some ''a''), Select (Some ''b''), Complete 1, Complete 0])) = Some ''b'' \<and>
   get_history be_up ''b'' = Inr [\<lparr>role_h = User, parts = [''history of b'']\<rparr>] \<and>
   messages
     (ui (run be_up \<lparr>ui = s_new, pending = []\<rparr>
            [Select (Some ''a''), Select (Some ''b''), Complete 1, Complete 0]))
     = [\<lparr>role = User, content = Text ''history of a''\<rparr>]"
  by (simp add: run_Cons run_Nil truthy_def select_defs s_new_def be_up_def mapped_def)

section \<open>Titles carried by a send-message response\<close>

text \<open>
  On the path that creates the session, a title in the response that is not empty is
  written into the new session before it is put at the head of the list. On the path with
  an active session the list is not touched.
\<close>

lemma handleSend_provisioning_title:
  assumes "\<not> truthy (currentChatId s)" and "trim (input s) \<noteq> []"
    and "post_chats be ''New Chat'' = Inr newChat"
    and "post_chat be (id_cs newChat) (input s) = Inr data"
    and "title_r data = Some ttl" and "ttl \<noteq> []"
  shows "chats (handleSend be s) = newChat\<lparr>title := ttl\<rparr> # chats s"
  using assms
  by (simp add: send_defs truthy_def)

lemma handleSend_existing_keeps_chats:
  "truthy (currentChatId s) \<Longrightarrow> chats (handleSend be s) = chats s"
  by (simp add: send_defs split: sum.splits)

text \<open>
  C3 says that a successful send on either path writes a title carried by the response into
  the active session of the local list. Here session \<open>c1\<close> is active and listed under the
  title \<open>New Chat\<close>, the send succeeds and the response carries the title \<open>Greetings\<close>: the
  reply is displayed and the list still has \<open>c1\<close> under \<open>New Chat\<close>.
\<close>

theorem handleSend_existing_title_ignored:
  "trim (input s_active) \<noteq> [] \<and> currentChatId s_active = Some ''c1'' \<and>
   post_chat be_up ''c1'' ''Hello''
     = Inr \<lparr>response = ''Hello!'', chat_id = ''c1'', title_r = Some ''Greetings''\<rparr> \<and>
   messages (handleSend be_up s_active)
     = [\<lparr>role = User, content = Text ''earlier''\<rparr>,
        \<lparr>role = User, content = Text ''Hello''\<rparr>,
        \<lparr>role = Model, content = Text ''Hello!''\<rparr>] \<and>
   chats (handleSend be_up s_active)
     = [session ''c1'' ''New Chat'', session ''c2'' ''Algebra'']"
  by (simp add: send_defs truthy_def s_active_def be_up_def trim_Hello)

section \<open>Authorization failures\<close>

text \<open>
  C4. For every response with status 401: away from the login and register pages the token
  is removed from the store and the location is set to the login page; on the login or the
  register page the browser is left exactly as it was. In both cases the error is rejected
  to the caller.
\<close>

theorem response_rejected_401:
  assumes "status err = Some 401" and "response_rejected b err = (b1, res)"
  shows "(pathname b \<noteq> ''/login'' \<and> pathname b \<noteq> ''/register'' \<longrightarrow>
            localStorage b1 ''token'' = None \<and> pathname b1 = ''/login'' \<and>
            navigations b1 = navigations b @ [''/login''])
       \<and> (pathname b = ''/login'' \<or> pathname b = ''/register'' \<longrightarrow> b1 = b)
       \<and> res = Inl err"
  using assms
  by (auto simp: response_rejected_def Let_def set_href_def removeItem_def)

text \<open>
  A 401 on the chat page, with a token stored, and a 401 on the login page.
\<close>

theorem response_rejected_401_witness:
  "status (Error (Some 401)) = Some 401 \<and>
   pathname browser_chat = ''/'' \<and>
   localStorage browser_chat ''token'' = Some ''abc'' \<and>
   localStorage (fst (response_rejected browser_chat (Error (Some 401)) :: browser \<times> (error + unit)))
     ''token'' = None \<and>
   pathname (fst (response_rejected browser_chat (Error (Some 401)) :: browser \<times> (error + unit)))
     = ''/login'' \<and>
   navigations (fst (response_rejected browser_chat (Error (Some 401)) :: browser \<times> (error + unit)))
     = [''/login''] \<and>
   pathname browser_login = ''/login'' \<and>
   (response_rejected browser_login (Error (Some 401)) :: browser \<times> (error + unit))
     = (browser_login, Inl (Error (Some 401)))"
proof -
  let ?e = "Error (Some 401)"
  let ?r1 = "response_rejected browser_chat ?e :: browser \<times> (error + unit)"
  let ?r2 = "response_rejected browser_login ?e :: browser \<times> (error + unit)"
  have h: "status ?e = Some 401" by simp
  have p1: "pathname browser_chat = ''/''" by (simp add: browser_chat_def)
  have p2: "pathname browser_login = ''/login''" by (simp add: browser_login_def)
  have t: "localStorage browser_chat ''token'' = Some ''abc''" by (simp add: browser_chat_def)
  have n: "navigations browser_chat = []" by (simp add: browser_chat_def)
  have e1: "?r1 = (fst ?r1, snd ?r1)" by simp
  have e2: "?r2 = (fst ?r2, snd ?r2)" by simp
  from response_rejected_401 [OF h e1] p1 n
  have c1: "localStorage (fst ?r1) ''token'' = None \<and> pathname (fst ?r1) = ''/login'' \<and>
            navigations (fst ?r1) = [''/login'']"
    by simp
  from response_rejected_401 [OF h e2] p2
  have c2: "fst ?r2 = browser_login \<and> snd ?r2 = Inl ?e"
    by simp
  then have c3: "?r2 = (browser_login, Inl ?e)"
    by (simp add: prod_eq_iff)
  from h p1 p2 t c1 c3 show ?thesis by simp
qed

section \<open>A send that fails\<close>

text \<open>
  C5. For every send whose remote call fails (the create call, or the send call on either
  path): the view is the earlier view, then the user's message, then exactly one synthetic
  message of role model; the loading flag is cleared; the session list is what it was.
\<close>

theorem handleSend_failure:
  assumes "trim (input s) \<noteq> []"
    and "(\<not> truthy (currentChatId s) \<and> post_chats be ''New Chat'' = Inl e)
       \<or> (\<not> truthy (currentChatId s) \<and> post_chats be ''New Chat'' = Inr newChat
            \<and> post_chat be (id_cs newChat) (input s) = Inl e)
       \<or> (truthy (currentChatId s) \<and> post_chat be (the (currentChatId s)) (input s) = Inl e)"
  shows "messages (handleSend be s) =
           messages s @ [\<lparr>role = User, content = Text (input s)\<rparr>, error_message]
         \<and> role error_message = Model
         \<and> loading (handleSend be s) = False
         \<and> chats (handleSend be s) = chats s"
  using assms
  by (auto simp: send_defs error_message_def)

text \<open>
  The first send of \<open>Hello\<close> against a service that creates the session and fails on the
  message.
\<close>

theorem handleSend_failure_witness:
  "trim (input s_new) \<noteq> [] \<and> \<not> truthy (currentChatId s_new) \<and>
   post_chats be_send_down ''New Chat'' = Inr (session ''c1'' ''New Chat'') \<and>
   post_chat be_send_down ''c1'' ''Hello'' = Inl (Error (Some 500)) \<and>
   messages (handleSend be_send_down s_new) =
     [\<lparr>role = User, content = Text ''Hello''\<rparr>,
      \<lparr>role = Model, content = Text ''Error: Could not reach the AI companion.''\<rparr>] \<and>
   loading (handleSend be_send_down s_new) = False \<and>
   chats (handleSend be_send_down s_new) = []"
proof -
  have h1: "trim (input s_new) \<noteq> []"
    by (simp add: s_new_def trim_Hello)
  have h2: "\<not> truthy (currentChatId s_new)"
    by (simp add: s_new_def truthy_def)
  have h3: "post_chats be_send_down ''New Chat'' = Inr (session ''c1'' ''New Chat'')"
    by (simp add: be_send_down_def be_up_def session_def)
  have h4: "post_chat be_send_down (id_cs (session ''c1'' ''New Chat'')) (input s_new)
              = Inl (Error (Some 500))"
    by (simp add: be_send_down_def)
  have h5: "post_chat be_send_down ''c1'' ''Hello'' = Inl (Error (Some 500))"
    by (simp add: be_send_down_def)
  from handleSend_failure
         [where s = s_new and be = be_send_down and e = "Error (Some 500)"
            and newChat = "session ''c1'' ''New Chat''"]
    h1 h2 h3 h4
  have "messages (handleSend be_send_down s_new) =
           messages s_new @ [\<lparr>role = User, content = Text (input s_new)\<rparr>, error_message]
         \<and> role error_message = Model
         \<and> loading (handleSend be_send_down s_new) = False
         \<and> chats (handleSend be_send_down s_new) = chats s_new"
    by blast
  then show ?thesis using h1 h2 h3 h5
    by (simp add: s_new_def error_message_def)
qed

section \<open>Deleting a session\<close>

text \<open>
  C6, as the code has it. After a successful delete of a session id, the local list is the
  earlier list without the entries of that id. When the deleted session was active: with
  sessions remaining and a first one whose id is not empty, that first session becomes
  active; with none remaining, no session is active and the view is empty. When the
  deleted session was not active, the active id is unchanged.
\<close>

theorem confirmDeleteChat_success:
  assumes "deleteId s = Some i" and "i \<noteq> []" and "delete_chats be i = Inr u"
  shows "chats (confirmDeleteChat be s) = filter (\<lambda>c. id_cs c \<noteq> i) (chats s)
       \<and> (currentChatId s = Some i \<and> filter (\<lambda>c. id_cs c \<noteq> i) (chats s) \<noteq> []
            \<and> id_cs (hd (filter (\<lambda>c. id_cs c \<noteq> i) (chats s))) \<noteq> [] \<longrightarrow>
          currentChatId (confirmDeleteChat be s)
            = Some (id_cs (hd (filter (\<lambda>c. id_cs c \<noteq> i) (chats s)))))
       \<and> (currentChatId s = Some i \<and> filter (\<lambda>c. id_cs c \<noteq> i) (chats s) = [] \<longrightarrow>
          currentChatId (confirmDeleteChat be s) = None \<and> messages (confirmDeleteChat be s) = [])
       \<and> (currentChatId s \<noteq> Some i \<longrightarrow>
          currentChatId (confirmDeleteChat be s) = currentChatId s)"
  using assms
  by (auto simp: delete_defs select_defs truthy_def hd_conv_nth split: sum.splits)

text \<open>
  With \<open>c1\<close> active and \<open>c1\<close>, \<open>c2\<close> listed: deleting \<open>c1\<close> makes \<open>c2\<close> active, and
  deleting \<open>c2\<close> leaves \<open>c1\<close> active.
\<close>

theorem confirmDeleteChat_success_witness:
  "deleteId (s_active\<lparr>deleteId := Some ''c1''\<rparr>) = Some ''c1'' \<and> ''c1'' \<noteq> [] \<and>
   delete_chats be_up ''c1'' = Inr () \<and>
   currentChatId (s_active\<lparr>deleteId := Some ''c1''\<rparr>) = Some ''c1'' \<and>
   chats (confirmDeleteChat be_up (s_active\<lparr>deleteId := Some ''c1''\<rparr>))
     = [session ''c2'' ''Algebra''] \<and>
   currentChatId (confirmDeleteChat be_up (s_active\<lparr>deleteId := Some ''c1''\<rparr>)) = Some ''c2'' \<and>
   deleteId (s_active\<lparr>deleteId := Some ''c2''\<rparr>) = Some ''c2'' \<and> ''c2'' \<noteq> [] \<and>
   delete_chats be_up ''c2'' = Inr () \<and>
   chats (confirmDeleteChat be_up (s_active\<lparr>deleteId := Some ''c2''\<rparr>))
     = [session ''c1'' ''New Chat''] \<and>
   currentChatId (confirmDeleteChat be_up (s_active\<lparr>deleteId := Some ''c2''\<rparr>)) = Some ''c1''"
proof -
  let ?s1 = "s_active\<lparr>deleteId := Some ''c1''\<rparr>"
  let ?s2 = "s_active\<lparr>deleteId := Some ''c2''\<rparr>"
  have a1: "deleteId ?s1 = Some ''c1''" and a2: "deleteId ?s2 = Some ''c2''" by simp_all
  have n1: "''c1'' \<noteq> []" and n2: "''c2'' \<noteq> []" by simp_all
  have d1: "delete_chats be_up ''c1'' = Inr ()" and d2: "delete_chats be_up ''c2'' = Inr ()"
    by (simp_all add: be_up_def)
  have cur1: "currentChatId ?s1 = Some ''c1''" and cur2: "currentChatId ?s2 = Some ''c1''"
    by (simp_all add: s_active_def)
  have f1: "filter (\<lambda>c. id_cs c \<noteq> ''c1'') (chats ?s1) = [session ''c2'' ''Algebra'']"
    by (simp add: s_active_def session_def)
  have f2: "filter (\<lambda>c. id_cs c \<noteq> ''c2'') (chats ?s2) = [session ''c1'' ''New Chat'']"
    by (simp add: s_active_def session_def)
  from confirmDeleteChat_success [OF a1 n1 d1] cur1 f1
  have c1: "chats (confirmDeleteChat be_up ?s1) = [session ''c2'' ''Algebra''] \<and>
            currentChatId (confirmDeleteChat be_up ?s1) = Some ''c2''"
    by (simp add: session_def)
  from confirmDeleteChat_success [OF a2 n2 d2] cur2 f2
  have c2: "chats (confirmDeleteChat be_up ?s2) = [session ''c1'' ''New Chat''] \<and>
            currentChatId (confirmDeleteChat be_up ?s2) = Some ''c1''"
    by simp
  from a1 a2 n1 n2 d1 d2 cur1 c1 c2 show ?thesis by simp
qed

text \<open>
  With \<open>c1\<close> active and a second listed session whose id is the empty string: after
  \<open>c1\<close> is deleted the guard of \<open>selectChat\<close> turns the successor away, and the deleted
  \<open>c1\<close> is still the current id.
\<close>

theorem confirmDeleteChat_empty_successor_counterexample:
  "deleteId (s_active\<lparr>chats := [session ''c1'' ''New Chat'', session '''' ''Algebra''],
                      deleteId := Some ''c1''\<rparr>) = Some ''c1'' \<and>
   currentChatId (s_active\<lparr>chats := [session ''c1'' ''New Chat'', session '''' ''Algebra''],
                      deleteId := Some ''c1''\<rparr>) = Some ''c1'' \<and>
   delete_chats be_up ''c1'' = Inr () \<and>
   chats (confirmDeleteChat be_up
            (s_active\<lparr>chats := [session ''c1'' ''New Chat'', session '''' ''Algebra''],
                      deleteId := Some ''c1''\<rparr>)) = [session '''' ''Algebra''] \<and>
   currentChatId (confirmDeleteChat be_up
            (s_active\<lparr>chats := [session ''c1'' ''New Chat'', session '''' ''Algebra''],
                      deleteId := Some ''c1''\<rparr>)) = Some ''c1''"
  by (simp add: delete_defs select_defs truthy_def be_up_def s_active_def session_def)

text \<open>
  C9. When the remote delete fails, the session list, the active session id and the view
  are what they were before the action.
\<close>

theorem confirmDeleteChat_failure:
  assumes "deleteId s = Some i" and "delete_chats be i = Inl e"
  shows "chats (confirmDeleteChat be s) = chats s
         \<and> currentChatId (confirmDeleteChat be s) = currentChatId s
         \<and> messages (confirmDeleteChat be s) = messages s"
  using assms
  by (simp add: delete_defs Let_def)

text \<open>
  Deleting the active \<open>c1\<close> against a service that cannot be reached: the delete call is
  issued and nothing local changes.
\<close>

theorem confirmDeleteChat_failure_witness:
  "deleteId (s_active\<lparr>deleteId := Some ''c1''\<rparr>) = Some ''c1'' \<and>
   delete_chats be_down ''c1'' = Inl (Error None) \<and>
   chats (confirmDeleteChat be_down (s_active\<lparr>deleteId := Some ''c1''\<rparr>))
     = [session ''c1'' ''New Chat'', session ''c2'' ''Algebra''] \<and>
   currentChatId (confirmDeleteChat be_down (s_active\<lparr>deleteId := Some ''c1''\<rparr>)) = Some ''c1'' \<and>
   messages (confirmDeleteChat be_down (s_active\<lparr>deleteId := Some ''c1''\<rparr>))
     = [\<lparr>role = User, content = Text ''earlier''\<rparr>] \<and>
   requests (confirmDeleteChat be_down (s_active\<lparr>deleteId := Some ''c1''\<rparr>))
     = [DeleteChat ''c1'']"
proof -
  let ?s = "s_active\<lparr>deleteId := Some ''c1''\<rparr>"
  have h1: "deleteId ?s = Some ''c1''" by simp
  have h2: "delete_chats be_down ''c1'' = Inl (Error None)"
    by (simp add: be_down_def)
  have h3: "requests (confirmDeleteChat be_down ?s) = [DeleteChat ''c1'']"
    by (simp add: delete_defs Let_def truthy_def be_down_def s_active_def)
  from confirmDeleteChat_failure [OF h1 h2] h1 h2 h3 show ?thesis
    by (simp add: s_active_def)
qed

section \<open>Selecting a session\<close>

text \<open>
  C7, as the code has it. For every selection of an id that is neither null nor the empty
  string, the view is replaced: when the fetch succeeds the view is exactly the fetched
  messages, each mapped to its role and first part, whatever the view held before; when the
  fetch fails the view is empty. The session list is not changed and the id is current.
\<close>

theorem selectChat_replaces_view:
  assumes "i \<noteq> []"
  shows "(get_history be i = Inr history \<longrightarrow>
            messages (selectChat be (Some i) s) = map mapped history)
       \<and> (get_history be i = Inl e \<longrightarrow> messages (selectChat be (Some i) s) = [])
       \<and> chats (selectChat be (Some i) s) = chats s
       \<and> currentChatId (selectChat be (Some i) s) = Some i"
  using assms
  by (auto simp: select_defs truthy_def split: sum.splits)

text \<open>
  Selecting \<open>c2\<close> while the view shows a message of \<open>c1\<close>: with the service up the view
  is the history of \<open>c2\<close> alone, with the service down it is empty.
\<close>

theorem selectChat_replaces_view_witness:
  "''c2'' \<noteq> [] \<and>
   get_history be_up ''c2'' = Inr [\<lparr>role_h = User, parts = [''history of c2'']\<rparr>] \<and>
   messages s_active = [\<lparr>role = User, content = Text ''earlier''\<rparr>] \<and>
   messages (selectChat be_up (Some ''c2'') s_active)
     = [\<lparr>role = User, content = Text ''history of c2''\<rparr>] \<and>
   get_history be_down ''c2'' = Inl (Error None) \<and>
   messages (selectChat be_down (Some ''c2'') s_active) = [] \<and>
   chats (selectChat be_down (Some ''c2'') s_active) = chats s_active"
proof -
  let ?h = "[\<lparr>role_h = User, parts = [''history of c2'']\<rparr>]"
  have h: "''c2'' \<noteq> []" by simp
  have g1: "get_history be_up ''c2'' = Inr ?h" by (simp add: be_up_def)
  have g2: "get_history be_down ''c2'' = Inl (Error None)" by (simp add: be_down_def)
  have m: "messages s_active = [\<lparr>role = User, content = Text ''earlier''\<rparr>]"
    by (simp add: s_active_def)
  from selectChat_replaces_view [OF h, where be = be_up and history = ?h and s = s_active] g1
  have c1: "messages (selectChat be_up (Some ''c2'') s_active) = map mapped ?h"
    by simp
  from selectChat_replaces_view [OF h, where be = be_down and e = "Error None" and s = s_active] g2
  have c2: "messages (selectChat be_down (Some ''c2'') s_active) = [] \<and>
            chats (selectChat be_down (Some ''c2'') s_active) = chats s_active"
    by simp
  from h g1 g2 m c1 c2 show ?thesis by (simp add: mapped_def)
qed

text \<open>
  Selecting the empty string, which is not null: the guard returns at once, no fetch is
  issued, and the view and the current id are what they were.
\<close>

theorem selectChat_empty_id_counterexample:
  "Some '''' \<noteq> (None :: string option) \<and>
   get_history be_up '''' = Inr [\<lparr>role_h = User, parts = [''history of '']\<rparr>] \<and>
   messages (selectChat be_up (Some '''') s_active)
     = [\<lparr>role = User, content = Text ''earlier''\<rparr>] \<and>
   currentChatId (selectChat be_up (Some '''') s_active) = Some ''c1'' \<and>
   requests (selectChat be_up (Some '''') s_active) = []"
  by (simp add: select_defs truthy_def be_up_def s_active_def)

section \<open>A send that succeeds\<close>

text \<open>
  C8. For every send that succeeds, on either path, the view is the earlier view, then the
  user's message, then the assistant's reply as a message of role model.
\<close>

theorem handleSend_success_view:
  assumes "trim (input s) \<noteq> []"
    and "(\<not> truthy (currentChatId s) \<and> post_chats be ''New Chat'' = Inr newChat
            \<and> post_chat be (id_cs newChat) (input s) = Inr data)
       \<or> (truthy (currentChatId s) \<and> post_chat be (the (currentChatId s)) (input s) = Inr data)"
  shows "messages (handleSend be s) =
           messages s @ [\<lparr>role = User, content = Text (input s)\<rparr>,
                         \<lparr>role = Model, content = Text (response data)\<rparr>]"
  using assms
  by (auto simp: send_defs)

text \<open>
  A send of \<open>Hello\<close> in the active session \<open>c1\<close>, which shows one earlier message.
\<close>

theorem handleSend_success_view_witness:
  "trim (input s_active) \<noteq> [] \<and> truthy (currentChatId s_active) \<and>
   post_chat be_up ''c1'' ''Hello'' =
     Inr \<lparr>response = ''Hello!'', chat_id = ''c1'', title_r = Some ''Greetings''\<rparr> \<and>
   messages (handleSend be_up s_active) =
     [\<lparr>role = User, content = Text ''earlier''\<rparr>,
      \<lparr>role = User, content = Text ''Hello''\<rparr>,
      \<lparr>role = Model, content = Text ''Hello!''\<rparr>]"
proof -
  let ?d = "\<lparr>response = ''Hello!'', chat_id = ''c1'', title_r = Some ''Greetings''\<rparr>"
  have h1: "trim (input s_active) \<noteq> []"
    by (simp add: s_active_def trim_Hello)
  have h2: "truthy (currentChatId s_active)"
    by (simp add: s_active_def truthy_def)
  have h3: "post_chat be_up (the (currentChatId s_active)) (input s_active) = Inr ?d"
    by (simp add: be_up_def s_active_def)
  have h4: "post_chat be_up ''c1'' ''Hello'' = Inr ?d"
    by (simp add: be_up_def)
  from handleSend_success_view
         [where s = s_active and be = be_up and data = ?d
            and newChat = "session ''c1'' ''New Chat''"]
    h1 h2 h3
  have "messages (handleSend be_up s_active) =
           messages s_active @ [\<lparr>role = User, content = Text (input s_active)\<rparr>,
                         \<lparr>role = Model, content = Text (response ?d)\<rparr>]"
    by blast
  then show ?thesis using h1 h2 h4
    by (simp add: s_active_def)
qed

section \<open>A blank input\<close>

text \<open>
  C10. For every input whose trimmed form is empty, \<open>handleSend\<close> returns the state it was
  given: no message is appended, the input is not cleared, the loading flag is not set and
  no remote call is issued.
\<close>

theorem handleSend_blank_noop:
  "trim (input s) = [] \<Longrightarrow> handleSend be s = s"
  by (simp add: handleSend_def)

text \<open>An input of two spaces.\<close>

theorem handleSend_blank_noop_witness:
  "trim (input (s_new\<lparr>input := ''  ''\<rparr>)) = [] \<and>
   handleSend be_up (s_new\<lparr>input := ''  ''\<rparr>) = s_new\<lparr>input := ''  ''\<rparr>"
proof -
  have h: "trim (input (s_new\<lparr>input := ''  ''\<rparr>)) = []"
    by (simp add: trim_spaces)
  from h handleSend_blank_noop [OF h, of be_up] show ?thesis by simp
qed

end
